theory Spec2Isabelle
  imports Main "HOL-Library.Word"
begin

section \<open>Data model\<close>

text \<open>
  Text values (Python 2 \<open>unicode\<close>) are lists of code points, so that slicing and
  \<open>len\<close> count characters. A \<open>str\<close> literal of the source is written as an
  Isabelle string and injected with \<open>ustr\<close>.
\<close>

type_synonym unicode = "nat list"

definition ustr :: "string \<Rightarrow> unicode" where
  "ustr s = map (\<lambda>c. (of_char c :: nat)) s"

text \<open>The selections of \<open>Mandate.state\<close> and \<open>Mandate.type\<close>.\<close>

datatype mandate_state = Draft | Requested | Validated | Canceled

datatype mandate_type = Recurrent | OneOff

text \<open>
  \<open>account.payment.sepa.mandate\<close>. The fields \<open>type\<close> and \<open>identification\<close> are not
  required, so they may hold \<open>None\<close>.
\<close>

record mandate =
  m_id :: int
  m_party :: int
  m_identification :: "unicode option"
  m_type :: "mandate_type option"
  m_state :: mandate_state

text \<open>The origin of a move line (a reference to some document) and the move line.\<close>

record origin =
  o_rec_name :: unicode

record move_line =
  l_origin :: "origin option"

text \<open>\<open>account.payment\<close>, with the \<open>sepa_mandate\<close> reference the module adds.\<close>

record payment =
  p_id :: int
  p_rec_name :: unicode
  p_party :: int
  p_group :: "int option"
  p_line :: "move_line option"
  p_description :: "unicode option"
  p_sepa_mandate :: "int option"

text \<open>
  The database as far as the module reads and writes it: the payment table and the
  mandate table, in the order in which a \<open>One2Many\<close> lists its rows.
\<close>

record database =
  payments :: "payment list"
  mandates :: "mandate list"

text \<open>
  The id of a record is its integer key in the database: it fits 64 bits, the widest
  integer column of the backends.
\<close>

definition database_id :: "int \<Rightarrow> bool" where
  "database_id i \<longleftrightarrow> - (2 ^ 63) \<le> i \<and> i < 2 ^ 63"

section \<open>Mandate\<close>

text \<open>\<open>Mandate.payments\<close>: the payments whose \<open>sepa_mandate\<close> is this mandate.\<close>

definition mandate_payments :: "database \<Rightarrow> mandate \<Rightarrow> payment list" where
  "mandate_payments db m = filter (\<lambda>p. p_sepa_mandate p = Some (m_id m)) (payments db)"

text \<open>
  The class body of \<open>Mandate\<close> binds the name \<open>has_payments\<close> twice: first to the
  function field, then, further down, to the classmethod written as the getter of that
  field. The later binding replaces the earlier one, so the class has no field of that
  name, the classmethod is never called as a getter, and \<open>self.has_payments\<close> is the
  bound classmethod.
\<close>

datatype attribute = FieldValue bool | BoundMethod

definition self_has_payments :: "mandate \<Rightarrow> attribute" where
  "self_has_payments m = BoundMethod"

text \<open>The truth value Python gives an attribute: a method object is true.\<close>

fun truth :: "attribute \<Rightarrow> bool" where
  "truth (FieldValue b) = b"
| "truth BoundMethod = True"

text \<open>\<open>Mandate.is_valid\<close>.\<close>

definition is_valid :: "mandate \<Rightarrow> bool" where
  "is_valid m =
     (if m_state m = Validated then
        (if m_type m = Some OneOff then
           (if \<not> truth (self_has_payments m) then True else False)
         else True)
      else False)"

text \<open>\<open>Mandate.sequence_type\<close>.\<close>

definition sequence_type :: "database \<Rightarrow> mandate \<Rightarrow> string" where
  "sequence_type db m =
     (if m_type m = Some OneOff then ''OOFF''
      else if length (mandate_payments db m) = 1 then ''FRST''
      else ''RCUR'')"

section \<open>Payment\<close>

text \<open>\<open>Payment.sepa_charge_bearer\<close>.\<close>

definition sepa_charge_bearer :: "payment \<Rightarrow> string" where
  "sepa_charge_bearer p = ''SLEV''"

text \<open>
  \<open>str(self.id)\<close>: the decimal digits of an integer, with a minus sign when negative.
\<close>

definition digit_char :: "nat \<Rightarrow> char" where
  "digit_char d = ''0123456789'' ! d"

fun str_nat :: "nat \<Rightarrow> string" where
  "str_nat n = (if n < 10 then [digit_char n] else str_nat (n div 10) @ [digit_char (n mod 10)])"

declare str_nat.simps [simp del]

definition str_int :: "int \<Rightarrow> string" where
  "str_int i = (if i < 0 then CHR ''-'' # str_nat (nat (- i)) else str_nat (nat i))"

text \<open>\<open>Payment.sepa_end_to_end_id\<close>.\<close>

definition sepa_end_to_end_id :: "payment \<Rightarrow> unicode" where
  "sepa_end_to_end_id p =
     (case (case p_line p of None \<Rightarrow> None | Some l \<Rightarrow> l_origin l) of
        Some orig \<Rightarrow> take 35 (o_rec_name orig)
      | None \<Rightarrow>
          (case p_description p of
             Some d \<Rightarrow> if d \<noteq> [] then take 35 d else ustr (str_int (p_id p))
           | None \<Rightarrow> ustr (str_int (p_id p))))"

text \<open>\<open>Party.sepa_mandates\<close>: the mandates of a party, in table order.\<close>

definition sepa_mandates :: "database \<Rightarrow> int \<Rightarrow> mandate list" where
  "sepa_mandates db party = filter (\<lambda>m. m_party m = party) (mandates db)"

text \<open>
  \<open>Payment.get_sepa_mandates\<close>: for each payment the first valid mandate of its party,
  or \<open>None\<close> when the inner loop ends without \<open>break\<close>.
\<close>

definition get_sepa_mandates :: "database \<Rightarrow> payment list \<Rightarrow> mandate option list" where
  "get_sepa_mandates db ps = map (\<lambda>p. find is_valid (sepa_mandates db (p_party p))) ps"

text \<open>\<open>Payment.write(records, {'sepa_mandate': mandate})\<close>: the rows are found by id.\<close>

definition payment_write :: "database \<Rightarrow> payment list \<Rightarrow> mandate \<Rightarrow> database" where
  "payment_write db ps m =
     db\<lparr>payments :=
          map (\<lambda>q. if p_id q \<in> set (map p_id ps) then q\<lparr>p_sepa_mandate := Some (m_id m)\<rparr> else q)
            (payments db)\<rparr>"

section \<open>Errors\<close>

text \<open>
  A user error carries the key of its message and the formatted message. The loader's
  error carries the name of the template, the persistence layer's error for a
  \<open>RESTRICT\<close> reference the referenced ids.
\<close>

datatype error =
    UserError string unicode
  | NotImplementedError
  | TemplateNotFound string
  | ForeignKeyRestrict "int list"
  | TemplateError string

text \<open>The message tables of \<open>Group.__setup__\<close> and \<open>Mandate.__setup__\<close>, split at \<open>%s\<close>.\<close>

definition error_messages :: "string \<Rightarrow> (string \<times> string) option" where
  "error_messages key =
     map_of
       [(''no_mandate'', (''No valid mandate for payment '' @ [CHR 0x22], [CHR 0x22])),
        (''delete_draft_canceled'',
           (''You can not delete mandate '' @ [CHR 0x22],
            [CHR 0x22] @ '' because it is not in draft or canceled state.''))]
       key"

definition raise_user_error :: "string \<Rightarrow> unicode \<Rightarrow> error" where
  "raise_user_error key arg =
     (case error_messages key of
        Some (before, after) \<Rightarrow> UserError key (ustr before @ arg @ ustr after)
      | None \<Rightarrow> UserError key (ustr key))"

section \<open>Journal and Group\<close>

record journal =
  j_process_method :: string
  j_sepa_payable_flavor :: "string option"
  j_sepa_receivable_flavor :: "string option"

text \<open>\<open>Journal.sepa_method\<close>.\<close>

definition sepa_method :: "journal \<Rightarrow> string" where
  "sepa_method j =
     (if j_process_method j = ''sepa_core'' then ''CORE''
      else if j_process_method j = ''sepa_b2b'' then ''B2B''
      else if j_process_method j = ''sepa_trf'' then ''TRF''
      else if j_process_method j = ''sepa_chk'' then ''CHK''
      else [])"

record group =
  g_id :: int
  g_rec_name :: unicode
  g_kind :: string
  g_journal :: journal
  g_sepa_message :: "unicode option"

text \<open>\<open>unicode.encode('utf-8')\<close> of one code point and of a text.\<close>

definition utf8_char :: "nat \<Rightarrow> 8 word list" where
  "utf8_char c =
     (if c < 0x80 then [of_nat c]
      else if c < 0x800 then [of_nat (0xC0 + c div 64), of_nat (0x80 + c mod 64)]
      else if c < 0x10000 then
        [of_nat (0xE0 + c div 4096), of_nat (0x80 + c div 64 mod 64), of_nat (0x80 + c mod 64)]
      else
        [of_nat (0xF0 + c div 262144), of_nat (0x80 + c div 4096 mod 64),
         of_nat (0x80 + c div 64 mod 64), of_nat (0x80 + c mod 64)])"

definition encode_utf8 :: "unicode \<Rightarrow> 8 word list" where
  "encode_utf8 u = concat (map utf8_char u)"

text \<open>What \<open>get_sepa_file\<close> returns: a \<open>buffer\<close> over bytes, or a \<open>str\<close>.\<close>

datatype file_value = Buffer "8 word list" | Str string

text \<open>\<open>Group.get_sepa_file\<close>: \<open>None\<close> and the empty text are both false.\<close>

definition get_sepa_file :: "group \<Rightarrow> file_value" where
  "get_sepa_file g =
     (case g_sepa_message g of
        Some msg \<Rightarrow> if msg \<noteq> [] then Buffer (encode_utf8 msg) else Str []
      | None \<Rightarrow> Str [])"

text \<open>\<open>Group.get_sepa_filename\<close>.\<close>

definition get_sepa_filename :: "group \<Rightarrow> unicode" where
  "get_sepa_filename g = g_rec_name g @ ustr ''.xml''"

text \<open>
  A loaded template is the function that renders it for a group over the database
  (\<open>generate\<close>, the \<open>remove_comment\<close> filter and \<open>render\<close>). The files of the
  module's template directory are not among the sources read here, so the loader over
  that directory is a parameter: it maps a file name to its template, and \<open>None\<close>
  stands for a file that is not there, for which \<open>load\<close> raises.
\<close>

type_synonym template = "database \<Rightarrow> group \<Rightarrow> error + unicode"

type_synonym loader = "string \<Rightarrow> template option"

definition load :: "loader \<Rightarrow> string \<Rightarrow> error + template option" where
  "load ld name = (case ld name of None \<Rightarrow> Inl (TemplateNotFound name) | Some t \<Rightarrow> Inr (Some t))"

text \<open>\<open>'%s.xml' % flavor\<close>: \<open>None\<close> is formatted as its name.\<close>

definition xml_name :: "string option \<Rightarrow> string" where
  "xml_name flavor = (case flavor of None \<Rightarrow> ''None'' | Some f \<Rightarrow> f) @ ''.xml''"

text \<open>\<open>Group.get_sepa_template\<close>: no \<open>return\<close> is reached for another kind.\<close>

definition get_sepa_template :: "loader \<Rightarrow> group \<Rightarrow> error + template option" where
  "get_sepa_template ld g =
     (if g_kind g = ''payable'' then load ld (xml_name (j_sepa_payable_flavor (g_journal g)))
      else if g_kind g = ''receivable'' then
        load ld (xml_name (j_sepa_receivable_flavor (g_journal g)))
      else Inr None)"

text \<open>\<open>Group.payments\<close>.\<close>

definition group_payments :: "database \<Rightarrow> group \<Rightarrow> payment list" where
  "group_payments db g = filter (\<lambda>p. p_group p = Some (g_id g)) (payments db)"

text \<open>
  The loop of \<open>process_sepa\<close> over \<open>zip(payments, mandates)\<close>: it stops at the first
  payment without mandate and keeps what it has written.
\<close>

fun write_mandates :: "database \<Rightarrow> (payment \<times> mandate option) list \<Rightarrow> error option \<times> database" where
  "write_mandates db [] = (None, db)"
| "write_mandates db ((p, None) # rest) = (Some (raise_user_error ''no_mandate'' (p_rec_name p)), db)"
| "write_mandates db ((p, Some m) # rest) = write_mandates (payment_write db [p] m) rest"

text \<open>The receivable branch of \<open>process_sepa\<close>.\<close>

definition assign_mandates :: "database \<Rightarrow> group \<Rightarrow> error option \<times> database" where
  "assign_mandates db g =
     (let ps = filter (\<lambda>p. p_sepa_mandate p = None) (group_payments db g);
          ms = get_sepa_mandates db ps
      in write_mandates db (zip ps ms))"

text \<open>
  The end of \<open>process_sepa\<close>: the template is resolved and rendered, and the text is
  stored on the group.
\<close>

definition render_sepa :: "loader \<Rightarrow> database \<Rightarrow> group \<Rightarrow> error option \<times> group" where
  "render_sepa ld db g =
     (case get_sepa_template ld g of
        Inl e \<Rightarrow> (Some e, g)
      | Inr None \<Rightarrow> (Some NotImplementedError, g)
      | Inr (Some tmpl) \<Rightarrow>
          (case tmpl db g of
             Inl e \<Rightarrow> (Some e, g)
           | Inr text \<Rightarrow> (None, g\<lparr>g_sepa_message := Some text\<rparr>)))"

text \<open>
  \<open>Group.process_sepa\<close>: the error raised if any, the database and the group as the
  call leaves them.
\<close>

definition process_sepa :: "loader \<Rightarrow> database \<Rightarrow> group \<Rightarrow> error option \<times> database \<times> group" where
  "process_sepa ld db g =
     (case (if g_kind g = ''receivable'' then assign_mandates db g else (None, db)) of
        (Some e, db') \<Rightarrow> (Some e, db', g)
      | (None, db') \<Rightarrow> (case render_sepa ld db' g of (e, g') \<Rightarrow> (e, db', g')))"

section \<open>Mandate workflow and deletion\<close>

text \<open>
  \<open>Mandate._transitions\<close>: \<open>Workflow.__setup__\<close> starts from the empty set, to which
  \<open>Mandate.__setup__\<close> adds its pairs.
\<close>

definition transitions :: "(mandate_state \<times> mandate_state) set" where
  "transitions =
     {} \<union> {(Draft, Requested), (Requested, Validated), (Validated, Canceled),
            (Requested, Canceled), (Requested, Draft)}"

text \<open>
  The framework's decorator \<open>Workflow.transition(state)\<close> on one record: the record moves
  to the state when the pair is a transition and is left alone otherwise.
\<close>

definition transition :: "mandate_state \<Rightarrow> mandate \<Rightarrow> mandate" where
  "transition target m =
     (if (m_state m, target) \<in> transitions then m\<lparr>m_state := target\<rparr> else m)"

definition draft :: "mandate \<Rightarrow> mandate" where
  "draft m = transition Draft m"

definition request :: "mandate \<Rightarrow> mandate" where
  "request m = transition Requested m"

definition validate_mandate :: "mandate \<Rightarrow> mandate" where
  "validate_mandate m = transition Validated m"

definition cancel :: "mandate \<Rightarrow> mandate" where
  "cancel m = transition Canceled m"

text \<open>The four buttons of the workflow.\<close>

datatype button = ButtonDraft | ButtonRequest | ButtonValidateMandate | ButtonCancel

fun press :: "button \<Rightarrow> mandate \<Rightarrow> mandate" where
  "press ButtonDraft m = draft m"
| "press ButtonRequest m = request m"
| "press ButtonValidateMandate m = validate_mandate m"
| "press ButtonCancel m = cancel m"

text \<open>\<open>Mandate.get_rec_name\<close>: \<open>None\<close> and the empty text are both false.\<close>

definition get_rec_name :: "mandate \<Rightarrow> unicode" where
  "get_rec_name m =
     (case m_identification m of
        Some i \<Rightarrow> if i \<noteq> [] then i else ustr (str_int (m_id m))
      | None \<Rightarrow> ustr (str_int (m_id m)))"

text \<open>The loop of \<open>Mandate.delete\<close>: the error of the first mandate it refuses.\<close>

fun delete_check :: "mandate list \<Rightarrow> error option" where
  "delete_check [] = None"
| "delete_check (m # ms) =
     (if m_state m \<noteq> Draft \<and> m_state m \<noteq> Canceled
      then Some (raise_user_error ''delete_draft_canceled'' (get_rec_name m))
      else delete_check ms)"

text \<open>
  \<open>ModelSQL.delete\<close> of the framework, which \<open>Mandate.delete\<close> calls through
  \<open>super\<close>: \<open>Payment.sepa_mandate\<close> is declared with \<open>ondelete='RESTRICT'\<close>, so
  the rows are deleted only when no payment refers to one of them.
\<close>

definition model_delete :: "database \<Rightarrow> mandate list \<Rightarrow> error option \<times> database" where
  "model_delete db ms =
     (let ids = map m_id ms;
          used = filter (\<lambda>i. i \<in> set ids) (List.map_filter p_sepa_mandate (payments db))
      in if used \<noteq> [] then (Some (ForeignKeyRestrict (remdups used)), db)
         else (None, db\<lparr>mandates := filter (\<lambda>m. m_id m \<notin> set ids) (mandates db)\<rparr>))"

text \<open>\<open>Mandate.delete\<close>.\<close>

definition delete :: "database \<Rightarrow> mandate list \<Rightarrow> error option \<times> database" where
  "delete db ms =
     (case delete_check ms of
        Some e \<Rightarrow> (Some e, db)
      | None \<Rightarrow> model_delete db ms)"

section \<open>Example data\<close>

definition mandate_a :: mandate where
  "mandate_a = \<lparr>m_id = 1, m_party = 10, m_identification = Some (ustr ''MA''),
                 m_type = Some Recurrent, m_state = Validated\<rparr>"

definition mandate_b :: mandate where
  "mandate_b = \<lparr>m_id = 2, m_party = 20, m_identification = Some (ustr ''MB''),
                 m_type = Some OneOff, m_state = Validated\<rparr>"

definition mandate_c :: mandate where
  "mandate_c = \<lparr>m_id = 3, m_party = 30, m_identification = None,
                 m_type = Some Recurrent, m_state = Draft\<rparr>"

definition mandate_d :: mandate where
  "mandate_d = \<lparr>m_id = 4, m_party = 10, m_identification = Some (ustr ''MD''),
                 m_type = Some Recurrent, m_state = Canceled\<rparr>"

definition new_payment :: "int \<Rightarrow> int \<Rightarrow> int \<Rightarrow> int option \<Rightarrow> payment" where
  "new_payment i party grp mand =
     \<lparr>p_id = i, p_rec_name = ustr (str_int i), p_party = party, p_group = Some grp,
      p_line = None, p_description = None, p_sepa_mandate = mand\<rparr>"

definition example_db :: database where
  "example_db =
     \<lparr>payments =
        [new_payment 1 20 7 None, new_payment 2 20 7 None, new_payment 3 30 7 None,
         new_payment 4 10 7 None, new_payment 5 10 8 (Some 4),
         new_payment 6 20 9 None, new_payment 7 10 9 None, new_payment 8 20 9 None],
      mandates = [mandate_d, mandate_a, mandate_b, mandate_c]\<rparr>"

text \<open>A second database, in which the payments of groups 7 and 9 are those of parties 10 and 30.\<close>

definition example_db_recurrent :: database where
  "example_db_recurrent =
     \<lparr>payments =
        [new_payment 1 10 7 None, new_payment 2 10 7 None, new_payment 3 30 7 None,
         new_payment 4 10 7 None, new_payment 5 10 9 None, new_payment 6 10 9 None],
      mandates = [mandate_d, mandate_a, mandate_b, mandate_c]\<rparr>"

definition example_template :: template where
  "example_template db g = Inr (ustr ''<Document>'' @ g_rec_name g @ ustr ''</Document>'')"

definition example_loader :: loader where
  "example_loader name =
     (if name \<in> {''pain.001.001.03.xml'', ''pain.001.001.05.xml'',
                  ''pain.008.001.02.xml'', ''pain.008.001.04.xml''}
      then Some example_template else None)"

definition example_group :: "int \<Rightarrow> string \<Rightarrow> string option \<Rightarrow> string option \<Rightarrow> group" where
  "example_group i kind payable receivable =
     \<lparr>g_id = i, g_rec_name = ustr (str_int i), g_kind = kind,
      g_journal = \<lparr>j_process_method = ''sepa_core'', j_sepa_payable_flavor = payable,
                   j_sepa_receivable_flavor = receivable\<rparr>,
      g_sepa_message = None\<rparr>"

section \<open>Lemmas\<close>

text \<open>The example records, unfolded together.\<close>

lemmas example_defs = mandate_a_def mandate_b_def mandate_c_def mandate_d_def new_payment_def
  example_db_def example_db_recurrent_def example_group_def

text \<open>What \<open>is_valid\<close> computes: no one-off mandate is valid.\<close>

lemma is_valid_code: "is_valid m \<longleftrightarrow> m_state m = Validated \<and> m_type m \<noteq> Some OneOff"
  by (simp add: is_valid_def self_has_payments_def)

text \<open>A decimal rendering used by the examples.\<close>

lemma str_1: "str_int 3 = ''3''"
  by (simp add: str_int_def str_nat.simps digit_char_def)

text \<open>The two user errors of the module, formatted.\<close>

lemma raise_no_mandate:
  "raise_user_error ''no_mandate'' arg =
     UserError ''no_mandate'' (ustr (''No valid mandate for payment '' @ [CHR 0x22]) @ arg @ ustr [CHR 0x22])"
  by (simp add: raise_user_error_def error_messages_def)

lemma raise_delete_draft_canceled:
  "raise_user_error ''delete_draft_canceled'' arg =
     UserError ''delete_draft_canceled''
       (ustr (''You can not delete mandate '' @ [CHR 0x22]) @ arg @
        ustr ([CHR 0x22] @ '' because it is not in draft or canceled state.''))"
  by (simp add: raise_user_error_def error_messages_def)

text \<open>The loop over the pairs raises for the first payment without mandate and for no other.\<close>

lemma write_mandates_error:
  "fst (write_mandates db (zip ps (map sel ps))) =
     (case dropWhile (\<lambda>p. sel p \<noteq> None) ps of
        [] \<Rightarrow> None
      | p # _ \<Rightarrow> Some (raise_user_error ''no_mandate'' (p_rec_name p)))"
proof (induction ps arbitrary: db)
  case Nil
  show ?case by simp
next
  case (Cons p ps)
  show ?case
  proof (cases "sel p")
    case None
    then show ?thesis by simp
  next
    case (Some m)
    then show ?thesis using Cons.IH by simp
  qed
qed

text \<open>Writing payments leaves the mandate table alone.\<close>

lemma payment_write_other:
  "mandates (payment_write db ps m) = mandates db"
  by (simp add: payment_write_def)

lemma write_mandates_other:
  "mandates (snd (write_mandates db prs)) = mandates db"
  by (induction db prs rule: write_mandates.induct) (simp_all add: payment_write_other)

text \<open>The payment table after the loop: the rows of the payments before the first failure carry
  the mandate selected for their party, every other row is as before.\<close>

lemma write_mandates_payments:
  assumes "\<forall>p\<in>set ps. \<forall>q\<in>set (payments db). p_id q = p_id p \<longrightarrow> p_party q = p_party p"
  shows "payments (snd (write_mandates db (zip ps (map (\<lambda>p. selp (p_party p)) ps)))) =
     map (\<lambda>q. if p_id q \<in> p_id ` set (takeWhile (\<lambda>p. selp (p_party p) \<noteq> None) ps)
              then q\<lparr>p_sepa_mandate := map_option m_id (selp (p_party q))\<rparr> else q)
       (payments db)"
  using assms
proof (induction ps arbitrary: db)
  case Nil
  show ?case by (simp add: map_idI)
next
  case (Cons p ps)
  show ?case
  proof (cases "selp (p_party p)")
    case None
    then show ?thesis by (simp add: map_idI)
  next
    case (Some m)
    let ?db1 = "payment_write db [p] m"
    have inv1: "\<forall>p\<in>set ps. \<forall>q\<in>set (payments ?db1). p_id q = p_id p \<longrightarrow> p_party q = p_party p"
      using Cons.prems by (auto simp: payment_write_def)
    have head: "\<And>q. q \<in> set (payments db) \<Longrightarrow> p_id q = p_id p \<Longrightarrow> selp (p_party q) = Some m"
      using Cons.prems Some by auto
    have "payments (snd (write_mandates db (zip (p # ps) (map (\<lambda>p. selp (p_party p)) (p # ps))))) =
          payments (snd (write_mandates ?db1 (zip ps (map (\<lambda>p. selp (p_party p)) ps))))"
      using Some by simp
    also note Cons.IH [OF inv1]
    also have "map (\<lambda>q. if p_id q \<in> p_id ` set (takeWhile (\<lambda>p. selp (p_party p) \<noteq> None) ps)
              then q\<lparr>p_sepa_mandate := map_option m_id (selp (p_party q))\<rparr> else q)
       (payments ?db1) =
       map (\<lambda>q. if p_id q \<in> p_id ` set (takeWhile (\<lambda>p. selp (p_party p) \<noteq> None) (p # ps))
              then q\<lparr>p_sepa_mandate := map_option m_id (selp (p_party q))\<rparr> else q)
       (payments db)"
      using Some head by (auto simp: payment_write_def)
    finally show ?thesis .
  qed
qed

text \<open>The same for the receivable branch, where ids identify the rows of the table.\<close>

lemma assign_mandates_payments:
  assumes "distinct (map p_id (payments db))"
  shows "payments (snd (assign_mandates db g)) =
     map (\<lambda>q. if q \<in> set (takeWhile (\<lambda>p. find is_valid (sepa_mandates db (p_party p)) \<noteq> None)
                          (filter (\<lambda>p. p_sepa_mandate p = None) (group_payments db g)))
              then q\<lparr>p_sepa_mandate := map_option m_id (find is_valid (sepa_mandates db (p_party q)))\<rparr>
              else q)
       (payments db)"
proof -
  let ?selp = "\<lambda>party. find is_valid (sepa_mandates db party)"
  let ?ps = "filter (\<lambda>p. p_sepa_mandate p = None) (group_payments db g)"
  let ?pre = "takeWhile (\<lambda>p. ?selp (p_party p) \<noteq> None) ?ps"
  have inj: "inj_on p_id (set (payments db))"
    using assms by (simp add: distinct_map)
  have sub: "set ?ps \<subseteq> set (payments db)"
    by (auto simp: group_payments_def)
  have inv: "\<forall>p\<in>set ?ps. \<forall>q\<in>set (payments db). p_id q = p_id p \<longrightarrow> p_party q = p_party p"
    using inj sub by (auto dest: inj_onD)
  have pre_sub: "set ?pre \<subseteq> set (payments db)"
    using sub set_takeWhileD by fastforce
  have mem: "\<And>q. q \<in> set (payments db) \<Longrightarrow> (p_id q \<in> p_id ` set ?pre) = (q \<in> set ?pre)"
    using inj pre_sub by (auto dest: inj_onD)
  have "payments (snd (assign_mandates db g)) =
        payments (snd (write_mandates db (zip ?ps (map (\<lambda>p. ?selp (p_party p)) ?ps))))"
    by (simp add: assign_mandates_def get_sepa_mandates_def Let_def)
  also note write_mandates_payments [OF inv]
  also have "map (\<lambda>q. if p_id q \<in> p_id ` set ?pre
              then q\<lparr>p_sepa_mandate := map_option m_id (?selp (p_party q))\<rparr> else q) (payments db) =
        map (\<lambda>q. if q \<in> set ?pre
              then q\<lparr>p_sepa_mandate := map_option m_id (?selp (p_party q))\<rparr> else q) (payments db)"
    using mem by (intro map_cong) auto
  finally show ?thesis .
qed

lemma assign_mandates_error:
  "fst (assign_mandates db g) =
     (case dropWhile (\<lambda>p. find is_valid (sepa_mandates db (p_party p)) \<noteq> None)
             (filter (\<lambda>p. p_sepa_mandate p = None) (group_payments db g)) of
        [] \<Rightarrow> None
      | p # _ \<Rightarrow> Some (raise_user_error ''no_mandate'' (p_rec_name p)))"
  using write_mandates_error [of db _ "\<lambda>p. find is_valid (sepa_mandates db (p_party p))"]
  by (simp add: assign_mandates_def get_sepa_mandates_def Let_def)

lemma assign_mandates_other:
  "mandates (snd (assign_mandates db g)) = mandates db"
  by (simp add: assign_mandates_def Let_def write_mandates_other)

lemma assign_mandates_error_kind:
  "fst (assign_mandates db g) = None \<or> (\<exists>msg. fst (assign_mandates db g) = Some (UserError ''no_mandate'' msg))"
  by (simp add: assign_mandates_error raise_no_mandate split: list.splits)

text \<open>Processing the payable example group renders its template.\<close>

lemma example_template_8:
  "process_sepa example_loader example_db (example_group 8 ''payable'' (Some ''pain.001.001.03'') None) =
     (None, example_db,
      (example_group 8 ''payable'' (Some ''pain.001.001.03'') None)
        \<lparr>g_sepa_message := Some (ustr ''<Document>8</Document>'')\<rparr>)"
  by (simp add: process_sepa_def render_sepa_def get_sepa_template_def load_def xml_name_def
      example_loader_def example_template_def example_group_def str_int_def str_nat.simps
      digit_char_def ustr_def)

text \<open>The transition set, and the state a button leaves a mandate in.\<close>

lemma transitions_eq:
  "transitions = {(Draft, Requested), (Requested, Validated), (Validated, Canceled),
                  (Requested, Canceled), (Requested, Draft)}"
  by (simp add: transitions_def)

lemma press_state:
  "m_state (press b m) =
     (let t = (case b of ButtonDraft \<Rightarrow> Draft | ButtonRequest \<Rightarrow> Requested
                 | ButtonValidateMandate \<Rightarrow> Validated | ButtonCancel \<Rightarrow> Canceled)
      in if (m_state m, t) \<in> transitions then t else m_state m)"
  by (cases b) (simp_all add: draft_def request_def validate_mandate_def cancel_def transition_def)

text \<open>The number of decimal digits: at most \<open>k\<close> exactly below \<open>10 ^ k\<close>.\<close>

lemma str_nat_length_le: "n < 10 ^ k \<Longrightarrow> 0 < k \<Longrightarrow> length (str_nat n) \<le> k"
proof (induction n arbitrary: k rule: str_nat.induct)
  case (1 n)
  show ?case
  proof (cases "n < 10")
    case True
    then show ?thesis using "1.prems" by (simp add: str_nat.simps [of n])
  next
    case False
    obtain j where k: "k = Suc j" using "1.prems"(2) by (cases k) auto
    have "0 < j"
    proof (rule ccontr)
      assume "\<not> 0 < j"
      then show False using False "1.prems"(1) k by simp
    qed
    moreover have "n div 10 < 10 ^ j"
      using "1.prems"(1) k by (simp add: less_mult_imp_div_less mult.commute)
    ultimately have "length (str_nat (n div 10)) \<le> j"
      using "1.IH" [OF False] by simp
    then show ?thesis using False k by (simp add: str_nat.simps [of n])
  qed
qed

lemma str_nat_length_gt: "10 ^ k \<le> n \<Longrightarrow> k < length (str_nat n)"
proof (induction n arbitrary: k rule: str_nat.induct)
  case (1 n)
  show ?case
  proof (cases "n < 10")
    case True
    have "k = 0"
    proof (cases k)
      case 0
      then show ?thesis .
    next
      case (Suc j)
      have "(1::nat) \<le> 10 ^ j" by simp
      then have "(10::nat) \<le> 10 * 10 ^ j" by linarith
      moreover have "10 * 10 ^ j \<le> n" using "1.prems" Suc by simp
      ultimately have "10 \<le> n" by (rule order_trans)
      then have False using True by simp
      then show ?thesis ..
    qed
    then show ?thesis using True by (simp add: str_nat.simps [of n])
  next
    case False
    show ?thesis
    proof (cases k)
      case 0
      then show ?thesis using False by (simp add: str_nat.simps [of n])
    next
      case (Suc j)
      have "10 ^ j \<le> n div 10"
        using "1.prems" Suc by (simp add: less_eq_div_iff_mult_less_eq mult.commute)
      then have "j < length (str_nat (n div 10))"
        using "1.IH" [OF False] by simp
      then show ?thesis using False Suc by (simp add: str_nat.simps [of n])
    qed
  qed
qed

lemma str_nat_length_iff:
  assumes "0 < k"
  shows "length (str_nat n) \<le> k \<longleftrightarrow> n < 10 ^ k"
proof
  assume "length (str_nat n) \<le> k"
  then have "\<not> 10 ^ k \<le> n" using str_nat_length_gt [of k n] by auto
  then show "n < 10 ^ k" by simp
next
  assume "n < 10 ^ k"
  then show "length (str_nat n) \<le> k" using assms by (rule str_nat_length_le)
qed

lemma str_int_length_35:
  "length (str_int i) \<le> 35 \<longleftrightarrow> - (10 ^ 34) < i \<and> i < 10 ^ 35"
proof (cases "i < 0")
  case True
  have "length (str_int i) \<le> 35 \<longleftrightarrow> length (str_nat (nat (- i))) \<le> 34"
    using True by (simp add: str_int_def)
  also have "\<dots> \<longleftrightarrow> nat (- i) < 10 ^ 34"
    by (rule str_nat_length_iff) simp
  also have "\<dots> \<longleftrightarrow> - (10 ^ 34) < i"
    using True by (simp add: nat_less_iff) linarith
  finally show ?thesis using True by auto
next
  case False
  have "length (str_int i) \<le> 35 \<longleftrightarrow> length (str_nat (nat i)) \<le> 35"
    using False by (simp add: str_int_def)
  also have "\<dots> \<longleftrightarrow> nat i < 10 ^ 35"
    by (rule str_nat_length_iff) simp
  also have "\<dots> \<longleftrightarrow> i < 10 ^ 35"
    using False by (simp add: nat_less_iff)
  finally show ?thesis using False by auto
qed

text \<open>Injecting a string keeps its length; ASCII text is its own UTF-8 encoding.\<close>

lemma length_ustr: "length (ustr s) = length s"
  by (simp add: ustr_def)

lemma utf8_ascii: "\<forall>c\<in>set u. c < 128 \<Longrightarrow> encode_utf8 u = map of_nat u"
  by (induction u) (simp_all add: encode_utf8_def utf8_char_def)

text \<open>The deletion guard refuses the first mandate that is neither draft nor canceled.\<close>

lemma delete_check_find:
  "delete_check ms =
     (case find (\<lambda>m. m_state m \<noteq> Draft \<and> m_state m \<noteq> Canceled) ms of
        None \<Rightarrow> None
      | Some m \<Rightarrow> Some (raise_user_error ''delete_draft_canceled'' (get_rec_name m)))"
  by (induction ms) simp_all

text \<open>Deleting rows under the \<open>RESTRICT\<close> reference of the payments.\<close>

lemma model_delete_free:
  assumes "\<forall>p\<in>set (payments db). \<forall>m\<in>set ms. p_sepa_mandate p \<noteq> Some (m_id m)"
  shows "model_delete db ms =
           (None, db\<lparr>mandates := filter (\<lambda>m. m_id m \<notin> m_id ` set ms) (mandates db)\<rparr>)"
proof -
  have "filter (\<lambda>i. i \<in> set (map m_id ms)) (List.map_filter p_sepa_mandate (payments db)) = []"
    using assms by (auto simp: filter_empty_conv map_filter_def)
  then show ?thesis by (simp add: model_delete_def Let_def)
qed

lemma model_delete_used:
  assumes "p \<in> set (payments db)" and "m \<in> set ms" and "p_sepa_mandate p = Some (m_id m)"
  shows "\<exists>ids. model_delete db ms = (Some (ForeignKeyRestrict ids), db)"
proof -
  have "m_id m \<in> set (filter (\<lambda>i. i \<in> set (map m_id ms)) (List.map_filter p_sepa_mandate (payments db)))"
    using assms by (force simp: map_filter_def image_iff)
  then have "filter (\<lambda>i. i \<in> set (map m_id ms)) (List.map_filter p_sepa_mandate (payments db)) \<noteq> []"
    by (metis empty_iff empty_set)
  then show ?thesis by (simp add: model_delete_def Let_def)
qed

text \<open>
  The selection is made for all payments before any write and depends on the party only:
  when every payment of the group without mandate has a valid mandate, two of them of the
  same party receive the same mandate, the first valid one of the party.
\<close>

lemma same_party_same_mandate:
  assumes "g_kind g = ''receivable''" and "distinct (map p_id (payments db))"
    and "pending = filter (\<lambda>p. p_sepa_mandate p = None) (group_payments db g)"
    and "\<forall>p\<in>set pending. find is_valid (sepa_mandates db (p_party p)) \<noteq> None"
    and "p1 \<in> set pending" and "p2 \<in> set pending" and "p_party p1 = p_party p2"
    and "process_sepa ld db g = (err, db', g')"
  shows "\<exists>m. find is_valid (sepa_mandates db (p_party p1)) = Some m
              \<and> m_type m \<noteq> Some OneOff
              \<and> p1\<lparr>p_sepa_mandate := Some (m_id m)\<rparr> \<in> set (payments db')
              \<and> p2\<lparr>p_sepa_mandate := Some (m_id m)\<rparr> \<in> set (payments db')"
proof -
  let ?sel = "\<lambda>p. find is_valid (sepa_mandates db (p_party p))"
  obtain e d where ad: "assign_mandates db g = (e, d)"
    by (cases "assign_mandates db g")
  have d: "db' = d"
    using assms(1,8) ad by (auto simp: process_sepa_def split: option.splits prod.splits)
  have tw: "takeWhile (\<lambda>p. ?sel p \<noteq> None) pending = pending"
    using assms(4) by (simp add: takeWhile_eq_all_conv)
  have pay0: "payments (snd (assign_mandates db g)) =
     map (\<lambda>q. if q \<in> set (takeWhile (\<lambda>p. ?sel p \<noteq> None) pending)
              then q\<lparr>p_sepa_mandate := map_option m_id (?sel q)\<rparr> else q)
       (payments db)"
    unfolding assms(3) by (rule assign_mandates_payments [OF assms(2)])
  have sd: "snd (assign_mandates db g) = db'"
    using ad d by simp
  have pay: "payments db' =
     map (\<lambda>q. if q \<in> set pending then q\<lparr>p_sepa_mandate := map_option m_id (?sel q)\<rparr> else q)
       (payments db)"
    using pay0 unfolding sd tw .
  have sub: "set pending \<subseteq> set (payments db)"
    using assms(3) by (auto simp: group_payments_def)
  obtain m where m: "?sel p1 = Some m"
    using assms(4,5) by auto
  have "is_valid m"
    using m by (auto simp: find_Some_iff)
  then have v: "m_type m \<noteq> Some OneOff"
    by (simp add: is_valid_code)
  have w: "\<And>p. p \<in> set pending \<Longrightarrow> p\<lparr>p_sepa_mandate := map_option m_id (?sel p)\<rparr> \<in> set (payments db')"
  proof -
    fix p assume p: "p \<in> set pending"
    then have "p \<in> set (payments db)" using sub by auto
    then have "(\<lambda>q. if q \<in> set pending then q\<lparr>p_sepa_mandate := map_option m_id (?sel q)\<rparr> else q) p
                 \<in> set (payments db')"
      unfolding pay by (simp only: set_map) (rule imageI)
    then show "p\<lparr>p_sepa_mandate := map_option m_id (?sel p)\<rparr> \<in> set (payments db')"
      using p by simp
  qed
  have 1: "p1\<lparr>p_sepa_mandate := Some (m_id m)\<rparr> \<in> set (payments db')"
    using w [OF assms(5)] m by simp
  have 2: "p2\<lparr>p_sepa_mandate := Some (m_id m)\<rparr> \<in> set (payments db')"
    using w [OF assms(6)] m assms(7) by simp
  show ?thesis using m v 1 2 by blast
qed

section \<open>Properties\<close>

subsection \<open>C1\<close>

text \<open>
  C1. For every mandate, \<open>is_valid\<close> is meant to be true if and only if the state is
  validated and either the type is not one-off, or the type is one-off and the mandate has
  no payments (\<open>has_payments\<close> is false). The code does not reach this: what
  \<open>is_valid\<close> reads under the name \<open>has_payments\<close> is the classmethod, which
  is never false, so a validated one-off mandate to which no payment refers is found not
  valid.
\<close>

theorem is_valid_one_off_without_payments:
  "m_state mandate_b = Validated \<and> m_type mandate_b = Some OneOff \<and>
   mandate_payments example_db mandate_b = [] \<and> \<not> is_valid mandate_b"
  by (simp add: example_defs mandate_payments_def is_valid_def self_has_payments_def)

subsection \<open>C2\<close>

text \<open>
  C2. Processing a receivable group gives every payment of the group that lacks a mandate
  the first mandate, in the order of its party's mandates, for which \<open>is_valid\<close>
  holds. The payments are written in order up to the first one for which no
  valid mandate exists; for that one processing fails with the user error
  \<open>no_mandate\<close>, whose message names the payment, the group keeps no message, and
  the mandates written for the earlier payments stay in the payment table. When every
  payment has a valid mandate the call goes on to the template. The ids are a key of the
  payment table.
\<close>

theorem process_sepa_receivable:
  assumes "g_kind g = ''receivable''" and "distinct (map p_id (payments db))"
    and "pending = filter (\<lambda>p. p_sepa_mandate p = None) (group_payments db g)"
    and "sel = (\<lambda>p. find is_valid (sepa_mandates db (p_party p)))"
    and "process_sepa ld db g = (err, db', g')"
  shows "payments db' =
           map (\<lambda>q. if q \<in> set (takeWhile (\<lambda>p. sel p \<noteq> None) pending)
                    then q\<lparr>p_sepa_mandate := map_option m_id (sel q)\<rparr> else q) (payments db)
         \<and> mandates db' = mandates db
         \<and> (case dropWhile (\<lambda>p. sel p \<noteq> None) pending of
              p # _ \<Rightarrow>
                err = Some (UserError ''no_mandate''
                  (ustr (''No valid mandate for payment '' @ [CHR 0x22]) @ p_rec_name p @ ustr [CHR 0x22]))
                \<and> g' = g
            | [] \<Rightarrow> (err, g') = render_sepa ld db' g)"
proof -
  obtain e d where ad: "assign_mandates db g = (e, d)"
    by (cases "assign_mandates db g")
  have d: "db' = d"
    using assms(1,5) ad by (auto simp: process_sepa_def split: option.splits prod.splits)
  have 1: "payments d = map (\<lambda>q. if q \<in> set (takeWhile (\<lambda>p. sel p \<noteq> None) pending)
                    then q\<lparr>p_sepa_mandate := map_option m_id (sel q)\<rparr> else q) (payments db)"
    using assign_mandates_payments [OF assms(2), of g] ad assms(3,4) by simp
  have 2: "mandates d = mandates db"
    using assign_mandates_other [of db g] ad by simp
  have e: "e = (case dropWhile (\<lambda>p. sel p \<noteq> None) pending of
        [] \<Rightarrow> None
      | p # _ \<Rightarrow> Some (raise_user_error ''no_mandate'' (p_rec_name p)))"
    using assign_mandates_error [of db g] ad assms(3,4) by simp
  have 3: "(case dropWhile (\<lambda>p. sel p \<noteq> None) pending of
              p # _ \<Rightarrow>
                err = Some (UserError ''no_mandate''
                  (ustr (''No valid mandate for payment '' @ [CHR 0x22]) @ p_rec_name p @ ustr [CHR 0x22]))
                \<and> g' = g
            | [] \<Rightarrow> (err, g') = render_sepa ld db' g)"
  proof (cases "dropWhile (\<lambda>p. sel p \<noteq> None) pending")
    case Nil
    have "e = None" unfolding e Nil by simp
    then have "(err, g') = render_sepa ld db' g"
      using assms(1,5) ad d by (auto simp: process_sepa_def split: prod.splits)
    then show ?thesis unfolding Nil by simp
  next
    case (Cons p rest)
    have "e = Some (raise_user_error ''no_mandate'' (p_rec_name p))" unfolding e Cons by simp
    then have "err = Some (raise_user_error ''no_mandate'' (p_rec_name p)) \<and> g' = g"
      using assms(1,5) ad by (auto simp: process_sepa_def)
    then show ?thesis unfolding Cons by (simp add: raise_no_mandate)
  qed
  show ?thesis using 1 2 3 d by simp
qed

text \<open>
  Group 7 of the second example: payments 1 and 2 receive mandate 1, the first valid
  mandate of party 10 after its canceled one; payment 3 has no valid mandate and is named
  by the error; payment 4 after it is not written.
\<close>

theorem process_sepa_receivable_witness:
  "g_kind (example_group 7 ''receivable'' None (Some ''pain.008.001.02'')) = ''receivable'' \<and>
   distinct (map p_id (payments example_db_recurrent)) \<and>
   payments (fst (snd (process_sepa example_loader example_db_recurrent
       (example_group 7 ''receivable'' None (Some ''pain.008.001.02''))))) =
     [new_payment 1 10 7 (Some 1), new_payment 2 10 7 (Some 1), new_payment 3 30 7 None,
      new_payment 4 10 7 None, new_payment 5 10 9 None, new_payment 6 10 9 None] \<and>
   fst (process_sepa example_loader example_db_recurrent
       (example_group 7 ''receivable'' None (Some ''pain.008.001.02''))) =
     Some (UserError ''no_mandate''
        (ustr (''No valid mandate for payment '' @ [CHR 0x22]) @ ustr ''3'' @ ustr [CHR 0x22]))"
proof -
  let ?g = "example_group 7 ''receivable'' None (Some ''pain.008.001.02'')"
  let ?r = "process_sepa example_loader example_db_recurrent ?g"
  have k: "g_kind ?g = ''receivable''"
    by (simp add: example_group_def)
  have d: "distinct (map p_id (payments example_db_recurrent))"
    by (simp add: example_defs)
  have r: "?r = (fst ?r, fst (snd ?r), snd (snd ?r))"
    by simp
  show ?thesis
    using process_sepa_receivable [OF k d refl refl r] k d
    by (simp add: example_defs group_payments_def sepa_mandates_def is_valid_def
        self_has_payments_def str_1)
qed

subsection \<open>C3\<close>

text \<open>
  C3. The sequence type of a mandate is OOFF when its type is one-off, otherwise FRST when
  it has exactly one payment, otherwise RCUR, also when it has no payment; FNAL never
  comes out.
\<close>

theorem sequence_type_cases:
  "(m_type m = Some OneOff \<longrightarrow> sequence_type db m = ''OOFF'')
   \<and> (m_type m \<noteq> Some OneOff \<and> length (mandate_payments db m) = 1 \<longrightarrow>
        sequence_type db m = ''FRST'')
   \<and> (m_type m \<noteq> Some OneOff \<and> length (mandate_payments db m) \<noteq> 1 \<longrightarrow>
        sequence_type db m = ''RCUR'')
   \<and> (m_type m \<noteq> Some OneOff \<and> mandate_payments db m = [] \<longrightarrow> sequence_type db m = ''RCUR'')
   \<and> sequence_type db m \<noteq> ''FNAL''"
  by (simp add: sequence_type_def)

text \<open>
  A recurrent mandate without payment, one with a single payment, and a one-off mandate.
\<close>

theorem sequence_type_cases_witness:
  "m_type mandate_a \<noteq> Some OneOff \<and> mandate_payments example_db mandate_a = [] \<and>
   sequence_type example_db mandate_a = ''RCUR'' \<and>
   sequence_type example_db mandate_d = ''FRST'' \<and>
   sequence_type example_db mandate_b = ''OOFF''"
  using sequence_type_cases [of mandate_a example_db] sequence_type_cases [of mandate_d example_db]
    sequence_type_cases [of mandate_b example_db]
  by (simp add: example_defs mandate_payments_def)

subsection \<open>C4\<close>

text \<open>
  C4. The transitions of the mandate workflow are exactly draft to requested, requested to
  validated, validated to canceled, requested to canceled and requested to draft. A button
  changes the state of a mandate only along one of them, each of them is taken by some
  button, no button moves a canceled mandate, and a validated mandate can only become
  canceled.
\<close>

theorem mandate_workflow:
  "transitions = {(Draft, Requested), (Requested, Validated), (Validated, Canceled),
                  (Requested, Canceled), (Requested, Draft)}
   \<and> (m_state (press b m) \<noteq> m_state m \<longrightarrow> (m_state m, m_state (press b m)) \<in> transitions)
   \<and> ((m_state m, t) \<in> transitions \<longrightarrow> (\<exists>b'. m_state (press b' m) = t))
   \<and> (m_state m = Canceled \<longrightarrow> press b m = m)
   \<and> (m_state m = Validated \<longrightarrow> press b m = m \<or> m_state (press b m) = Canceled)
   \<and> (Canceled, t) \<notin> transitions
   \<and> ((Validated, t) \<in> transitions \<longleftrightarrow> t = Canceled)"
proof -
  have 5: "(Canceled, t) \<notin> transitions"
    by (simp add: transitions_eq)
  have 6: "(Validated, t) \<in> transitions \<longleftrightarrow> t = Canceled"
    by (auto simp: transitions_eq)
  have 1: "m_state (press b m) \<noteq> m_state m \<longrightarrow> (m_state m, m_state (press b m)) \<in> transitions"
    by (simp add: press_state Let_def del: press.simps)
  have 2: "(m_state m, t) \<in> transitions \<longrightarrow> (\<exists>b'. m_state (press b' m) = t)"
  proof
    assume a: "(m_state m, t) \<in> transitions"
    show "\<exists>b'. m_state (press b' m) = t"
    proof (cases t)
      case Draft
      then have "m_state (press ButtonDraft m) = t" using a by (simp add: press_state del: press.simps)
      then show ?thesis ..
    next
      case Requested
      then have "m_state (press ButtonRequest m) = t" using a by (simp add: press_state del: press.simps)
      then show ?thesis ..
    next
      case Validated
      then have "m_state (press ButtonValidateMandate m) = t" using a by (simp add: press_state del: press.simps)
      then show ?thesis ..
    next
      case Canceled
      then have "m_state (press ButtonCancel m) = t" using a by (simp add: press_state del: press.simps)
      then show ?thesis ..
    qed
  qed
  have 3: "m_state m = Canceled \<longrightarrow> press b m = m"
    by (cases b) (simp_all add: draft_def request_def validate_mandate_def cancel_def
        transition_def transitions_eq)
  have 4: "m_state m = Validated \<longrightarrow> press b m = m \<or> m_state (press b m) = Canceled"
    by (cases b) (simp_all add: draft_def request_def validate_mandate_def cancel_def
        transition_def transitions_eq)
  show ?thesis
    apply (intro conjI)
        apply (rule transitions_eq)
       apply (rule 1)
      apply (rule 2)
     apply (rule 3)
    apply (rule 4)
    apply (rule 5)
    apply (rule 6)
    done
qed

text \<open>
  A draft mandate can be requested; a canceled and a validated mandate stay as they are
  under the draft button; cancelling a validated mandate cancels it.
\<close>

theorem mandate_workflow_witness:
  "(m_state mandate_c, Requested) \<in> transitions \<and>
   (\<exists>b. m_state (press b mandate_c) = Requested) \<and>
   m_state mandate_d = Canceled \<and> press ButtonDraft mandate_d = mandate_d \<and>
   m_state mandate_a = Validated \<and> press ButtonDraft mandate_a = mandate_a \<and>
   m_state (press ButtonCancel mandate_a) = Canceled"
proof -
  have c: "(m_state mandate_c, Requested) \<in> transitions"
    by (simp add: mandate_c_def transitions_eq)
  have d: "m_state mandate_d = Canceled"
    by (simp add: mandate_d_def)
  have a: "m_state mandate_a = Validated"
    by (simp add: mandate_a_def)
  have a2: "press ButtonCancel mandate_a \<noteq> mandate_a"
    by (simp add: mandate_a_def cancel_def transition_def transitions_eq)
  have a3: "press ButtonDraft mandate_a = mandate_a"
    by (simp add: mandate_a_def draft_def transition_def transitions_eq)
  from mandate_workflow [of ButtonRequest mandate_c Requested] c
  have 1: "\<exists>b. m_state (press b mandate_c) = Requested" by blast
  from mandate_workflow [of ButtonDraft mandate_d Draft] d
  have 2: "press ButtonDraft mandate_d = mandate_d" by blast
  from mandate_workflow [of ButtonCancel mandate_a Draft] a a2
  have 3: "m_state (press ButtonCancel mandate_a) = Canceled" by blast
  show ?thesis using c 1 d 2 a a3 3 by blast
qed

subsection \<open>C5\<close>

text \<open>
  C5 (amended). Deleting mandates of which one is validated or requested fails with the user
  error \<open>delete_draft_canceled\<close> naming the first such mandate, before anything
  is deleted: the database is unchanged. Deleting mandates that are all draft or canceled
  passes the guard; it then removes them when no payment refers to any of them, and fails
  on the \<open>RESTRICT\<close> reference of \<open>Payment.sepa_mandate\<close>, again
  deleting nothing, when a payment does.
\<close>

theorem delete_mandates:
  "(find (\<lambda>m. m_state m \<noteq> Draft \<and> m_state m \<noteq> Canceled) ms = Some bad \<longrightarrow>
      delete db ms =
        (Some (UserError ''delete_draft_canceled''
           (ustr (''You can not delete mandate '' @ [CHR 0x22]) @ get_rec_name bad @
            ustr ([CHR 0x22] @ '' because it is not in draft or canceled state.''))), db))
   \<and> ((\<exists>m\<in>set ms. m_state m = Validated \<or> m_state m = Requested) \<longrightarrow>
        (\<exists>msg. delete db ms = (Some (UserError ''delete_draft_canceled'' msg), db)))
   \<and> ((\<forall>m\<in>set ms. m_state m = Draft \<or> m_state m = Canceled) \<longrightarrow>
        ((\<forall>p\<in>set (payments db). \<forall>m\<in>set ms. p_sepa_mandate p \<noteq> Some (m_id m)) \<longrightarrow>
           delete db ms =
             (None, db\<lparr>mandates := filter (\<lambda>m. m_id m \<notin> m_id ` set ms) (mandates db)\<rparr>))
        \<and> ((\<exists>p\<in>set (payments db). \<exists>m\<in>set ms. p_sepa_mandate p = Some (m_id m)) \<longrightarrow>
             (\<exists>ids. delete db ms = (Some (ForeignKeyRestrict ids), db))))"
proof -
  have 1: "find (\<lambda>m. m_state m \<noteq> Draft \<and> m_state m \<noteq> Canceled) ms = Some bad \<longrightarrow>
      delete db ms =
        (Some (UserError ''delete_draft_canceled''
           (ustr (''You can not delete mandate '' @ [CHR 0x22]) @ get_rec_name bad @
            ustr ([CHR 0x22] @ '' because it is not in draft or canceled state.''))), db)"
    by (simp add: delete_def delete_check_find raise_delete_draft_canceled)
  have 2: "(\<exists>m\<in>set ms. m_state m = Validated \<or> m_state m = Requested) \<longrightarrow>
        (\<exists>msg. delete db ms = (Some (UserError ''delete_draft_canceled'' msg), db))"
  proof
    assume "\<exists>m\<in>set ms. m_state m = Validated \<or> m_state m = Requested"
    then have "\<exists>m\<in>set ms. m_state m \<noteq> Draft \<and> m_state m \<noteq> Canceled"
      by force
    then obtain bad' where "find (\<lambda>m. m_state m \<noteq> Draft \<and> m_state m \<noteq> Canceled) ms = Some bad'"
      by (cases "find (\<lambda>m. m_state m \<noteq> Draft \<and> m_state m \<noteq> Canceled) ms")
        (auto simp: find_None_iff)
    then show "\<exists>msg. delete db ms = (Some (UserError ''delete_draft_canceled'' msg), db)"
      by (simp add: delete_def delete_check_find raise_delete_draft_canceled)
  qed
  have 3: "(\<forall>m\<in>set ms. m_state m = Draft \<or> m_state m = Canceled) \<longrightarrow>
        ((\<forall>p\<in>set (payments db). \<forall>m\<in>set ms. p_sepa_mandate p \<noteq> Some (m_id m)) \<longrightarrow>
           delete db ms =
             (None, db\<lparr>mandates := filter (\<lambda>m. m_id m \<notin> m_id ` set ms) (mandates db)\<rparr>))
        \<and> ((\<exists>p\<in>set (payments db). \<exists>m\<in>set ms. p_sepa_mandate p = Some (m_id m)) \<longrightarrow>
             (\<exists>ids. delete db ms = (Some (ForeignKeyRestrict ids), db)))"
  proof
    assume ok: "\<forall>m\<in>set ms. m_state m = Draft \<or> m_state m = Canceled"
    then have "find (\<lambda>m. m_state m \<noteq> Draft \<and> m_state m \<noteq> Canceled) ms = None"
      by (auto simp: find_None_iff)
    then have d: "delete db ms = model_delete db ms"
      by (simp add: delete_def delete_check_find)
    show "((\<forall>p\<in>set (payments db). \<forall>m\<in>set ms. p_sepa_mandate p \<noteq> Some (m_id m)) \<longrightarrow>
           delete db ms =
             (None, db\<lparr>mandates := filter (\<lambda>m. m_id m \<notin> m_id ` set ms) (mandates db)\<rparr>))
        \<and> ((\<exists>p\<in>set (payments db). \<exists>m\<in>set ms. p_sepa_mandate p = Some (m_id m)) \<longrightarrow>
             (\<exists>ids. delete db ms = (Some (ForeignKeyRestrict ids), db)))"
      using d model_delete_free [of db ms] model_delete_used [of _ db _ ms] by auto
  qed
  show ?thesis
    apply (intro conjI)
      apply (rule 1)
     apply (rule 2)
    apply (rule 3)
    done
qed

text \<open>
  As stated the claim fails: a canceled mandate to which a payment refers is not deleted.
\<close>

theorem delete_mandates_counterexample:
  "m_state mandate_d = Canceled \<and>
   delete example_db [mandate_d] = (Some (ForeignKeyRestrict [4]), example_db)"
  by (simp add: delete_def model_delete_def example_defs map_filter_def)

text \<open>
  A validated mandate among the arguments stops the deletion; a draft mandate without
  payment is deleted; a canceled mandate with a payment is kept.
\<close>

theorem delete_mandates_witness:
  "find (\<lambda>m. m_state m \<noteq> Draft \<and> m_state m \<noteq> Canceled) [mandate_c, mandate_a, mandate_b] = Some mandate_a \<and>
   delete example_db [mandate_c, mandate_a, mandate_b] =
     (Some (UserError ''delete_draft_canceled''
        (ustr (''You can not delete mandate '' @ [CHR 0x22]) @ ustr ''MA'' @
         ustr ([CHR 0x22] @ '' because it is not in draft or canceled state.''))), example_db) \<and>
   delete example_db [mandate_c] =
     (None, example_db\<lparr>mandates := [mandate_d, mandate_a, mandate_b]\<rparr>) \<and>
   (\<exists>ids. delete example_db [mandate_c, mandate_d] = (Some (ForeignKeyRestrict ids), example_db))"
proof -
  note A = delete_mandates [of "[mandate_c, mandate_a, mandate_b]" mandate_a example_db]
  note B = delete_mandates [of "[mandate_c]" mandate_c example_db]
  note C = delete_mandates [of "[mandate_c, mandate_d]" mandate_c example_db]
  have f: "find (\<lambda>m. m_state m \<noteq> Draft \<and> m_state m \<noteq> Canceled) [mandate_c, mandate_a, mandate_b] = Some mandate_a"
    by (simp add: example_defs)
  have 1: "delete example_db [mandate_c, mandate_a, mandate_b] =
     (Some (UserError ''delete_draft_canceled''
        (ustr (''You can not delete mandate '' @ [CHR 0x22]) @ ustr ''MA'' @
         ustr ([CHR 0x22] @ '' because it is not in draft or canceled state.''))), example_db)"
    using A [THEN conjunct1, THEN mp, OF f] by (simp add: get_rec_name_def mandate_a_def ustr_def)
  have okc: "\<forall>m\<in>set [mandate_c]. m_state m = Draft \<or> m_state m = Canceled"
    by (simp add: example_defs)
  have free: "\<forall>p\<in>set (payments example_db). \<forall>m\<in>set [mandate_c]. p_sepa_mandate p \<noteq> Some (m_id m)"
    by (simp add: example_defs)
  have 2: "delete example_db [mandate_c] =
     (None, example_db\<lparr>mandates := [mandate_d, mandate_a, mandate_b]\<rparr>)"
    using B [THEN conjunct2, THEN conjunct2, THEN mp, OF okc, THEN conjunct1, THEN mp, OF free]
    by (simp add: example_defs)
  have okd: "\<forall>m\<in>set [mandate_c, mandate_d]. m_state m = Draft \<or> m_state m = Canceled"
    by (simp add: example_defs)
  have used: "\<exists>p\<in>set (payments example_db). \<exists>m\<in>set [mandate_c, mandate_d]. p_sepa_mandate p = Some (m_id m)"
    by (simp add: example_defs)
  have 3: "\<exists>ids. delete example_db [mandate_c, mandate_d] = (Some (ForeignKeyRestrict ids), example_db)"
    using C [THEN conjunct2, THEN conjunct2, THEN mp, OF okd, THEN conjunct2, THEN mp, OF used] .
  show ?thesis using f 1 2 3 by blast
qed

subsection \<open>C6\<close>

text \<open>
  C6 (amended). \<open>NotImplementedError\<close> is raised when the group is neither payable
  nor receivable, the only case in which \<open>get_sepa_template\<close> returns nothing;
  the database and the group are then unchanged. When the journal has no flavor for the
  direction of the group, the template \<open>None.xml\<close> is asked of the loader: if the
  template directory has no such file, a payable group fails with the loader's
  template-not-found error, and a receivable group fails with that error or, before it,
  with \<open>no_mandate\<close>. In each of these cases no message is stored on the group.
\<close>

theorem process_sepa_template_errors:
  "(g_kind g \<noteq> ''payable'' \<and> g_kind g \<noteq> ''receivable'' \<longrightarrow>
      process_sepa ld db g = (Some NotImplementedError, db, g))
   \<and> (g_kind g = ''payable'' \<or> g_kind g = ''receivable'' \<longrightarrow> get_sepa_template ld g \<noteq> Inr None)
   \<and> (g_kind g = ''payable'' \<and> j_sepa_payable_flavor (g_journal g) = None \<and> ld ''None.xml'' = None \<longrightarrow>
        process_sepa ld db g = (Some (TemplateNotFound ''None.xml''), db, g))
   \<and> (g_kind g = ''receivable'' \<and> j_sepa_receivable_flavor (g_journal g) = None \<and>
        ld ''None.xml'' = None \<longrightarrow>
        (fst (process_sepa ld db g) = Some (TemplateNotFound ''None.xml'')
         \<or> (\<exists>msg. fst (process_sepa ld db g) = Some (UserError ''no_mandate'' msg)))
        \<and> snd (snd (process_sepa ld db g)) = g)"
proof -
  have 1: "g_kind g \<noteq> ''payable'' \<and> g_kind g \<noteq> ''receivable'' \<longrightarrow>
      process_sepa ld db g = (Some NotImplementedError, db, g)"
    by (simp add: process_sepa_def render_sepa_def get_sepa_template_def)
  have 2: "g_kind g = ''payable'' \<or> g_kind g = ''receivable'' \<longrightarrow> get_sepa_template ld g \<noteq> Inr None"
    by (auto simp: get_sepa_template_def load_def split: option.splits)
  have 3: "g_kind g = ''payable'' \<and> j_sepa_payable_flavor (g_journal g) = None \<and> ld ''None.xml'' = None \<longrightarrow>
        process_sepa ld db g = (Some (TemplateNotFound ''None.xml''), db, g)"
    by (simp add: process_sepa_def render_sepa_def get_sepa_template_def load_def xml_name_def)
  have 4: "g_kind g = ''receivable'' \<and> j_sepa_receivable_flavor (g_journal g) = None \<and>
        ld ''None.xml'' = None \<longrightarrow>
        (fst (process_sepa ld db g) = Some (TemplateNotFound ''None.xml'')
         \<or> (\<exists>msg. fst (process_sepa ld db g) = Some (UserError ''no_mandate'' msg)))
        \<and> snd (snd (process_sepa ld db g)) = g"
  proof
    assume a: "g_kind g = ''receivable'' \<and> j_sepa_receivable_flavor (g_journal g) = None \<and>
        ld ''None.xml'' = None"
    obtain e d where ad: "assign_mandates db g = (e, d)"
      by (cases "assign_mandates db g")
    have r: "render_sepa ld d g = (Some (TemplateNotFound ''None.xml''), g)"
      using a by (simp add: render_sepa_def get_sepa_template_def load_def xml_name_def)
    show "(fst (process_sepa ld db g) = Some (TemplateNotFound ''None.xml'')
         \<or> (\<exists>msg. fst (process_sepa ld db g) = Some (UserError ''no_mandate'' msg)))
        \<and> snd (snd (process_sepa ld db g)) = g"
    proof (cases e)
      case None
      then show ?thesis using a ad r by (simp add: process_sepa_def)
    next
      case (Some err)
      then have "\<exists>msg. err = UserError ''no_mandate'' msg"
        using assign_mandates_error_kind [of db g] ad by simp
      then show ?thesis using a ad Some by (auto simp: process_sepa_def)
    qed
  qed
  show ?thesis using 1 2 3 4 by blast
qed

text \<open>
  As stated the claim fails: a payable group whose journal has no payable flavor fails
  with the error of the loader for \<open>None.xml\<close>, not with \<open>NotImplementedError\<close>.
\<close>

theorem process_sepa_template_errors_counterexample:
  "g_kind (example_group 8 ''payable'' None (Some ''pain.008.001.02'')) = ''payable'' \<and>
   j_sepa_payable_flavor (g_journal (example_group 8 ''payable'' None (Some ''pain.008.001.02''))) = None \<and>
   process_sepa example_loader example_db (example_group 8 ''payable'' None (Some ''pain.008.001.02'')) =
     (Some (TemplateNotFound ''None.xml''), example_db,
      example_group 8 ''payable'' None (Some ''pain.008.001.02'')) \<and>
   fst (process_sepa example_loader example_db (example_group 8 ''payable'' None (Some ''pain.008.001.02'')))
     \<noteq> Some NotImplementedError"
  by (simp add: process_sepa_def render_sepa_def get_sepa_template_def load_def xml_name_def
      example_loader_def example_group_def)

text \<open>
  A group of another kind, a payable group without flavor, and a receivable group without
  flavor whose payments all have a valid mandate, so that the call reaches the loader.
\<close>

theorem process_sepa_template_errors_witness:
  "process_sepa example_loader example_db (example_group 8 ''transfer'' None None) =
     (Some NotImplementedError, example_db, example_group 8 ''transfer'' None None) \<and>
   example_loader ''None.xml'' = None \<and>
   process_sepa example_loader example_db (example_group 8 ''payable'' None None) =
     (Some (TemplateNotFound ''None.xml''), example_db, example_group 8 ''payable'' None None) \<and>
   get_sepa_mandates example_db_recurrent
       (filter (\<lambda>p. p_sepa_mandate p = None)
          (group_payments example_db_recurrent (example_group 9 ''receivable'' None None))) =
     [Some mandate_a, Some mandate_a] \<and>
   fst (process_sepa example_loader example_db_recurrent (example_group 9 ''receivable'' None None)) =
     Some (TemplateNotFound ''None.xml'') \<and>
   snd (snd (process_sepa example_loader example_db_recurrent
       (example_group 9 ''receivable'' None None))) =
     example_group 9 ''receivable'' None None"
proof -
  have l: "example_loader ''None.xml'' = None"
    by (simp add: example_loader_def)
  have k: "g_kind (example_group 8 ''transfer'' None None) \<noteq> ''payable'' \<and>
           g_kind (example_group 8 ''transfer'' None None) \<noteq> ''receivable''"
    by (simp add: example_group_def)
  have p: "g_kind (example_group 8 ''payable'' None None) = ''payable'' \<and>
           j_sepa_payable_flavor (g_journal (example_group 8 ''payable'' None None)) = None"
    by (simp add: example_group_def)
  have r: "g_kind (example_group 9 ''receivable'' None None) = ''receivable'' \<and>
           j_sepa_receivable_flavor (g_journal (example_group 9 ''receivable'' None None)) = None"
    by (simp add: example_group_def)
  have sel: "get_sepa_mandates example_db_recurrent
       (filter (\<lambda>p. p_sepa_mandate p = None)
          (group_payments example_db_recurrent (example_group 9 ''receivable'' None None))) =
     [Some mandate_a, Some mandate_a]"
    by (simp add: get_sepa_mandates_def example_defs group_payments_def sepa_mandates_def
        is_valid_def self_has_payments_def)
  have nm: "fst (assign_mandates example_db_recurrent (example_group 9 ''receivable'' None None)) = None"
    by (simp add: assign_mandates_error example_defs group_payments_def sepa_mandates_def
        is_valid_def self_has_payments_def)
  have no: "\<not> (\<exists>msg. fst (process_sepa example_loader example_db_recurrent
                 (example_group 9 ''receivable'' None None))
               = Some (UserError ''no_mandate'' msg))"
    using nm r l
    by (auto simp: process_sepa_def render_sepa_def get_sepa_template_def load_def xml_name_def
        split: prod.splits option.splits)
  note A = process_sepa_template_errors [of "example_group 8 ''transfer'' None None" example_loader example_db]
  note B = process_sepa_template_errors [of "example_group 8 ''payable'' None None" example_loader example_db]
  note C = process_sepa_template_errors [of "example_group 9 ''receivable'' None None" example_loader
      example_db_recurrent]
  have 1: "process_sepa example_loader example_db (example_group 8 ''transfer'' None None) =
     (Some NotImplementedError, example_db, example_group 8 ''transfer'' None None)"
    using A [THEN conjunct1] k by simp
  have 2: "process_sepa example_loader example_db (example_group 8 ''payable'' None None) =
     (Some (TemplateNotFound ''None.xml''), example_db, example_group 8 ''payable'' None None)"
    using B [THEN conjunct2, THEN conjunct2, THEN conjunct1] p l by simp
  have 3: "(fst (process_sepa example_loader example_db_recurrent
                (example_group 9 ''receivable'' None None)) =
       Some (TemplateNotFound ''None.xml'') \<or>
     (\<exists>msg. fst (process_sepa example_loader example_db_recurrent
                (example_group 9 ''receivable'' None None))
               = Some (UserError ''no_mandate'' msg))) \<and>
   snd (snd (process_sepa example_loader example_db_recurrent
       (example_group 9 ''receivable'' None None))) =
     example_group 9 ''receivable'' None None"
    using C [THEN conjunct2, THEN conjunct2, THEN conjunct2] r l by simp
  show ?thesis using 1 2 3 l no sel by blast
qed

subsection \<open>C7\<close>

text \<open>
  C7 (amended). \<open>get_sepa_file\<close> returns the UTF-8 encoding of the stored message when
  the message is not empty, and the empty string when the group has no message or an empty
  one. \<open>get_sepa_filename\<close> returns the display name of the group followed by
  \<open>.xml\<close> in every case, also before any message exists. After a successful
  \<open>process_sepa\<close> the group holds the rendered text, and the accessors return
  its encoding and the name with the suffix.
\<close>

theorem sepa_file_accessors:
  "get_sepa_filename g = g_rec_name g @ ustr ''.xml''
   \<and> (g_sepa_message g = None \<or> g_sepa_message g = Some [] \<longrightarrow> get_sepa_file g = Str [])
   \<and> (g_sepa_message g = Some msg \<and> msg \<noteq> [] \<longrightarrow> get_sepa_file g = Buffer (encode_utf8 msg))
   \<and> (process_sepa ld db g = (None, db', g') \<longrightarrow>
        (\<exists>rendered. g_sepa_message g' = Some rendered
           \<and> get_sepa_file g' =
               (if rendered = [] then Str [] else Buffer (encode_utf8 rendered)))
        \<and> get_sepa_filename g' = g_rec_name g @ ustr ''.xml'')"
proof -
  have 1: "get_sepa_filename g = g_rec_name g @ ustr ''.xml''"
    by (simp add: get_sepa_filename_def)
  have 2: "g_sepa_message g = None \<or> g_sepa_message g = Some [] \<longrightarrow> get_sepa_file g = Str []"
    by (auto simp: get_sepa_file_def)
  have 3: "g_sepa_message g = Some msg \<and> msg \<noteq> [] \<longrightarrow> get_sepa_file g = Buffer (encode_utf8 msg)"
    by (simp add: get_sepa_file_def)
  have 4: "process_sepa ld db g = (None, db', g') \<longrightarrow>
        (\<exists>rendered. g_sepa_message g' = Some rendered
           \<and> get_sepa_file g' =
               (if rendered = [] then Str [] else Buffer (encode_utf8 rendered)))
        \<and> get_sepa_filename g' = g_rec_name g @ ustr ''.xml''"
  proof
    assume a: "process_sepa ld db g = (None, db', g')"
    then have "render_sepa ld db' g = (None, g')"
      by (auto simp: process_sepa_def split: prod.splits option.splits if_splits)
    then obtain rendered where g': "g' = g\<lparr>g_sepa_message := Some rendered\<rparr>"
      by (auto simp: render_sepa_def split: sum.splits option.splits)
    have "g_sepa_message g' = Some rendered
           \<and> get_sepa_file g' = (if rendered = [] then Str [] else Buffer (encode_utf8 rendered))"
      by (simp add: g' get_sepa_file_def)
    moreover have "get_sepa_filename g' = g_rec_name g @ ustr ''.xml''"
      by (simp add: g' get_sepa_filename_def)
    ultimately show "(\<exists>rendered. g_sepa_message g' = Some rendered
           \<and> get_sepa_file g' =
               (if rendered = [] then Str [] else Buffer (encode_utf8 rendered)))
        \<and> get_sepa_filename g' = g_rec_name g @ ustr ''.xml''"
      by blast
  qed
  show ?thesis using 1 2 3 4 by blast
qed

text \<open>
  As stated the claim fails: a group without message has a file name.
\<close>

theorem sepa_file_accessors_counterexample:
  "g_sepa_message (example_group 9 ''receivable'' None (Some ''pain.008.001.02'')) = None \<and>
   get_sepa_filename (example_group 9 ''receivable'' None (Some ''pain.008.001.02'')) = ustr ''9.xml'' \<and>
   get_sepa_filename (example_group 9 ''receivable'' None (Some ''pain.008.001.02'')) \<noteq> []"
  by (simp add: example_group_def get_sepa_filename_def str_int_def str_nat.simps digit_char_def
      ustr_def)

text \<open>
  The payable example group before and after processing, and a text outside ASCII.
\<close>

theorem sepa_file_accessors_witness:
  "process_sepa example_loader example_db (example_group 8 ''payable'' (Some ''pain.001.001.03'') None) =
     (None, example_db,
      (example_group 8 ''payable'' (Some ''pain.001.001.03'') None)
        \<lparr>g_sepa_message := Some (ustr ''<Document>8</Document>'')\<rparr>) \<and>
   get_sepa_file ((example_group 8 ''payable'' (Some ''pain.001.001.03'') None)
        \<lparr>g_sepa_message := Some (ustr ''<Document>8</Document>'')\<rparr>) =
     Buffer (map of_nat (ustr ''<Document>8</Document>'')) \<and>
   get_sepa_filename ((example_group 8 ''payable'' (Some ''pain.001.001.03'') None)
        \<lparr>g_sepa_message := Some (ustr ''<Document>8</Document>'')\<rparr>) = ustr ''8.xml'' \<and>
   get_sepa_file (example_group 8 ''payable'' (Some ''pain.001.001.03'') None) = Str [] \<and>
   get_sepa_filename (example_group 8 ''payable'' (Some ''pain.001.001.03'') None) = ustr ''8.xml'' \<and>
   get_sepa_file ((example_group 8 ''payable'' None None)\<lparr>g_sepa_message := Some [0xE9, 0x20AC]\<rparr>) =
     Buffer [0xC3, 0xA9, 0xE2, 0x82, 0xAC]"
proof -
  let ?g = "example_group 8 ''payable'' (Some ''pain.001.001.03'') None"
  let ?g' = "?g\<lparr>g_sepa_message := Some (ustr ''<Document>8</Document>'')\<rparr>"
  let ?h = "(example_group 8 ''payable'' None None)\<lparr>g_sepa_message := Some [0xE9, 0x20AC]\<rparr>"
  have none: "g_sepa_message ?g = None"
    by (simp add: example_group_def)
  have name: "g_rec_name ?g @ ustr ''.xml'' = ustr ''8.xml''"
    by (simp add: example_group_def str_int_def str_nat.simps digit_char_def ustr_def)
  note T = sepa_file_accessors [of ?g "[]" example_loader example_db example_db ?g']
  note H = sepa_file_accessors [of ?h "[0xE9, 0x20AC]" example_loader example_db example_db ?h]
  have ne: "ustr ''<Document>8</Document>'' \<noteq> []"
    by (simp add: ustr_def)
  have after: "(\<exists>rendered. g_sepa_message ?g' = Some rendered
           \<and> get_sepa_file ?g' = (if rendered = [] then Str [] else Buffer (encode_utf8 rendered)))
        \<and> get_sepa_filename ?g' = g_rec_name ?g @ ustr ''.xml''"
    by (rule T [THEN conjunct2, THEN conjunct2, THEN conjunct2, THEN mp, OF example_template_8])
  then obtain rendered where "g_sepa_message ?g' = Some rendered"
    and f: "get_sepa_file ?g' = (if rendered = [] then Str [] else Buffer (encode_utf8 rendered))"
    by blast
  then have "rendered = ustr ''<Document>8</Document>''"
    by simp
  then have "get_sepa_file ?g' = Buffer (encode_utf8 (ustr ''<Document>8</Document>''))"
    using f ne by simp
  moreover have "encode_utf8 (ustr ''<Document>8</Document>'') = map of_nat (ustr ''<Document>8</Document>'')"
    by (rule utf8_ascii) (simp add: ustr_def)
  ultimately have 1: "get_sepa_file ?g' = Buffer (map of_nat (ustr ''<Document>8</Document>''))"
    by simp
  have 2: "get_sepa_filename ?g' = ustr ''8.xml''"
    using after name by simp
  have "get_sepa_file ?g = Str []"
    using T [THEN conjunct2, THEN conjunct1] none by simp
  moreover have "get_sepa_filename ?g = ustr ''8.xml''"
    using T [THEN conjunct1] name by simp
  ultimately have 3: "get_sepa_file ?g = Str [] \<and> get_sepa_filename ?g = ustr ''8.xml''"
    by simp
  have "get_sepa_file ?h = Buffer (encode_utf8 [0xE9, 0x20AC])"
    using H [THEN conjunct2, THEN conjunct2, THEN conjunct1] by simp
  then have 4: "get_sepa_file ?h = Buffer [0xC3, 0xA9, 0xE2, 0x82, 0xAC]"
    by (simp add: encode_utf8_def utf8_char_def)
  show ?thesis using example_template_8 1 2 3 4 by simp
qed

subsection \<open>C8\<close>

text \<open>
  C8. For every payment, the end-to-end identifier has at most 35 characters. It is the
  display name of the origin of the payment's line, cut to 35 characters, when there is
  one; otherwise the description, cut to 35 characters, when it is not empty; otherwise
  the decimal rendering of the payment's own id. Each branch gives at most 35 characters;
  for the last one this rests on the id being a key of the database.
\<close>

theorem sepa_end_to_end_id_length:
  assumes "database_id (p_id p)"
  shows "length (sepa_end_to_end_id p) \<le> 35
   \<and> (p_line p = Some l \<and> l_origin l = Some orig \<longrightarrow>
        sepa_end_to_end_id p = take 35 (o_rec_name orig)
        \<and> length (take 35 (o_rec_name orig)) \<le> 35)
   \<and> ((p_line p = None \<or> (\<exists>l'. p_line p = Some l' \<and> l_origin l' = None)) \<longrightarrow>
        (p_description p = Some d \<and> d \<noteq> [] \<longrightarrow>
           sepa_end_to_end_id p = take 35 d \<and> length (take 35 d) \<le> 35)
        \<and> (p_description p = None \<or> p_description p = Some [] \<longrightarrow>
             sepa_end_to_end_id p = ustr (str_int (p_id p))
             \<and> length (ustr (str_int (p_id p))) \<le> 35))"
proof -
  have lo: "- (10 ^ 34) < p_id p"
  proof -
    have "- (10 ^ 34) < - (2 ^ 63 :: int)" by simp
    also have "\<dots> \<le> p_id p" using assms by (simp add: database_id_def)
    finally show ?thesis .
  qed
  have hi: "p_id p < 10 ^ 35"
  proof -
    have "p_id p < 2 ^ 63" using assms by (simp add: database_id_def)
    also have "\<dots> < (10 ^ 35 :: int)" by simp
    finally show ?thesis .
  qed
  have id_len: "length (ustr (str_int (p_id p))) \<le> 35"
    using str_int_length_35 [of "p_id p"] lo hi by (simp add: length_ustr)
  have a: "p_line p = Some l \<and> l_origin l = Some orig \<longrightarrow>
        sepa_end_to_end_id p = take 35 (o_rec_name orig)
        \<and> length (take 35 (o_rec_name orig)) \<le> 35"
    by (simp add: sepa_end_to_end_id_def)
  have b: "(p_line p = None \<or> (\<exists>l'. p_line p = Some l' \<and> l_origin l' = None)) \<longrightarrow>
        (p_description p = Some d \<and> d \<noteq> [] \<longrightarrow>
           sepa_end_to_end_id p = take 35 d \<and> length (take 35 d) \<le> 35)
        \<and> (p_description p = None \<or> p_description p = Some [] \<longrightarrow>
             sepa_end_to_end_id p = ustr (str_int (p_id p))
             \<and> length (ustr (str_int (p_id p))) \<le> 35)"
    using id_len by (auto simp: sepa_end_to_end_id_def)
  have c: "length (sepa_end_to_end_id p) \<le> 35"
    using id_len by (auto simp: sepa_end_to_end_id_def split: option.splits)
  show ?thesis
    apply (intro conjI)
      apply (rule c)
     apply (rule a)
    apply (rule b)
    done
qed

text \<open>
  An origin with a name of 40 characters, a description, neither, and the longest
  rendering of a key, that of the least one.
\<close>

theorem sepa_end_to_end_id_length_witness:
  "database_id 3 \<and> database_id (- (2 ^ 63)) \<and>
   sepa_end_to_end_id
     (new_payment 3 20 7 None\<lparr>p_line := Some \<lparr>l_origin = Some \<lparr>o_rec_name = replicate 40 65\<rparr>\<rparr>\<rparr>)
     = replicate 35 65 \<and>
   sepa_end_to_end_id (new_payment 3 20 7 None\<lparr>p_description := Some (ustr ''rent'')\<rparr>) = ustr ''rent'' \<and>
   sepa_end_to_end_id (new_payment 3 20 7 None) = ustr ''3'' \<and>
   length (sepa_end_to_end_id (new_payment 3 20 7 None)) \<le> 35 \<and>
   sepa_end_to_end_id (new_payment (- (2 ^ 63)) 20 7 None) = ustr ''-9223372036854775808'' \<and>
   length (sepa_end_to_end_id (new_payment (- (2 ^ 63)) 20 7 None)) \<le> 35"
proof -
  have i3: "database_id (p_id (new_payment 3 20 7 None\<lparr>p_line := Some \<lparr>l_origin = Some \<lparr>o_rec_name = replicate 40 65\<rparr>\<rparr>\<rparr>))"
    and d3: "database_id (p_id (new_payment 3 20 7 None\<lparr>p_description := Some (ustr ''rent'')\<rparr>))"
    and n3: "database_id (p_id (new_payment 3 20 7 None))"
    and lo: "database_id (p_id (new_payment (- (2 ^ 63)) 20 7 None))"
    by (simp_all add: database_id_def new_payment_def)
  have ids: "database_id 3 \<and> database_id (- (2 ^ 63))"
    by (simp add: database_id_def)
  have least: "str_int (- (2 ^ 63)) = ''-9223372036854775808''"
    by (simp add: str_int_def str_nat.simps digit_char_def)
  note A = sepa_end_to_end_id_length [OF i3,
      of "\<lparr>l_origin = Some \<lparr>o_rec_name = replicate 40 65\<rparr>\<rparr>" "\<lparr>o_rec_name = replicate 40 65\<rparr>" "[]"]
  note B = sepa_end_to_end_id_length [OF d3, of undefined undefined "ustr ''rent''"]
  note C = sepa_end_to_end_id_length [OF n3, of undefined undefined "[]"]
  note D = sepa_end_to_end_id_length [OF lo, of undefined undefined "[]"]
  have 1: "sepa_end_to_end_id
     (new_payment 3 20 7 None\<lparr>p_line := Some \<lparr>l_origin = Some \<lparr>o_rec_name = replicate 40 65\<rparr>\<rparr>\<rparr>)
     = replicate 35 65"
    using A by (simp add: new_payment_def)
  have 2: "sepa_end_to_end_id (new_payment 3 20 7 None\<lparr>p_description := Some (ustr ''rent'')\<rparr>) = ustr ''rent''"
    using B by (simp add: new_payment_def ustr_def)
  have 3: "sepa_end_to_end_id (new_payment 3 20 7 None) = ustr ''3''"
    using C by (simp add: new_payment_def str_1)
  have 4: "length (sepa_end_to_end_id (new_payment 3 20 7 None)) \<le> 35"
    using C by simp
  have 5: "sepa_end_to_end_id (new_payment (- (2 ^ 63)) 20 7 None) = ustr ''-9223372036854775808''"
    using D least by (simp add: new_payment_def)
  have 6: "length (sepa_end_to_end_id (new_payment (- (2 ^ 63)) 20 7 None)) \<le> 35"
    using D by simp
  show ?thesis using ids 1 2 3 4 5 6 by simp
qed

subsection \<open>C9\<close>

text \<open>
  C9. In one call of \<open>process_sepa\<close> on a receivable group the mandates of all
  payments are selected before any of them is written, so two payments of the same party
  without mandate are meant to receive the same mandate, a one-off mandate included. The
  code does not reach this for a one-off mandate, which \<open>is_valid\<close> never accepts:
  in group 9 of the example, payments 6 and 8 belong to party 20, whose only mandate is
  validated, one-off and without payment. No mandate is selected for either of them,
  processing fails with \<open>no_mandate\<close> for payment 6 and nothing is written.
\<close>

theorem one_off_mandate_not_selected:
  "m_state mandate_b = Validated \<and> m_type mandate_b = Some OneOff \<and>
   mandate_payments example_db mandate_b = [] \<and>
   sepa_mandates example_db 20 = [mandate_b] \<and>
   filter (\<lambda>p. p_sepa_mandate p = None)
     (group_payments example_db (example_group 9 ''receivable'' None (Some ''pain.008.001.02''))) =
     [new_payment 6 20 9 None, new_payment 7 10 9 None, new_payment 8 20 9 None] \<and>
   get_sepa_mandates example_db
     [new_payment 6 20 9 None, new_payment 7 10 9 None, new_payment 8 20 9 None] =
     [None, Some mandate_a, None] \<and>
   process_sepa example_loader example_db
     (example_group 9 ''receivable'' None (Some ''pain.008.001.02'')) =
     (Some (UserError ''no_mandate''
        (ustr (''No valid mandate for payment '' @ [CHR 0x22]) @ ustr ''6'' @ ustr [CHR 0x22])),
      example_db, example_group 9 ''receivable'' None (Some ''pain.008.001.02''))"
proof -
  have six: "str_int 6 = ''6''"
    by (simp add: str_int_def str_nat.simps digit_char_def)
  have 1: "m_state mandate_b = Validated \<and> m_type mandate_b = Some OneOff \<and>
     mandate_payments example_db mandate_b = [] \<and> sepa_mandates example_db 20 = [mandate_b]"
    by (simp add: example_defs mandate_payments_def sepa_mandates_def)
  have 2: "filter (\<lambda>p. p_sepa_mandate p = None)
     (group_payments example_db (example_group 9 ''receivable'' None (Some ''pain.008.001.02''))) =
     [new_payment 6 20 9 None, new_payment 7 10 9 None, new_payment 8 20 9 None]"
    by (simp add: example_defs group_payments_def)
  have 3: "get_sepa_mandates example_db
     [new_payment 6 20 9 None, new_payment 7 10 9 None, new_payment 8 20 9 None] =
     [None, Some mandate_a, None]"
    by (simp add: get_sepa_mandates_def example_defs sepa_mandates_def is_valid_def
        self_has_payments_def)
  have "assign_mandates example_db (example_group 9 ''receivable'' None (Some ''pain.008.001.02'')) =
     (Some (raise_user_error ''no_mandate'' (p_rec_name (new_payment 6 20 9 None))), example_db)"
    unfolding assign_mandates_def Let_def 2 3 by simp
  then have 4: "process_sepa example_loader example_db
     (example_group 9 ''receivable'' None (Some ''pain.008.001.02'')) =
     (Some (UserError ''no_mandate''
        (ustr (''No valid mandate for payment '' @ [CHR 0x22]) @ ustr ''6'' @ ustr [CHR 0x22])),
      example_db, example_group 9 ''receivable'' None (Some ''pain.008.001.02''))"
    by (simp add: process_sepa_def raise_no_mandate new_payment_def six example_group_def)
  show ?thesis using 1 2 3 4 by simp
qed

subsection \<open>C10\<close>

text \<open>
  C10. The charge bearer of every payment is the constant SLEV, whatever the payment's
  state, party or journal.
\<close>

theorem sepa_charge_bearer_const: "sepa_charge_bearer p = ''SLEV''"
  by (simp add: sepa_charge_bearer_def)

end
